theory Spec2Isabelle
  imports Main "HOL-Library.Log_Nat"
begin

section \<open>JavaScript values met by the counter slice\<close>

text \<open>
  The slice's state field and the action payload are JavaScript values. A JavaScript
  Number is an IEEE 754 binary64 value. The model keeps the Numbers whose value is an
  integer (\<open>Fin n\<close> is the finite double whose value is \<open>n\<close>), the two infinities and
  NaN. The two zeros are identified, as \<^verbatim>\<open>===\<close> does. Numbers with a fractional
  part, strings, objects, symbols and BigInts are outside the model.
\<close>

datatype number = Fin int | NaN | PosInf | NegInf

datatype jsval = Undefined | Null | Bool bool | Num number

text \<open>
  Rounding of an exact integer result to binary64, round to nearest, ties to even.
  Every integer of magnitude at most \<open>2 ^ 53\<close> is a double. A larger magnitude \<open>m\<close>
  with \<open>bitlen m\<close> binary digits keeps its 53 leading digits: the doubles around it are
  the multiples of \<open>u = 2 ^ (bitlen m - 53)\<close>. A rounded magnitude of \<open>2 ^ 1024\<close> or more
  overflows to an infinity.
\<close>

definition round_to_double :: "int \<Rightarrow> number" where
  "round_to_double x =
     (let m = \<bar>x\<bar> in
      if m \<le> 2 ^ 53 then Fin x
      else
        let u = 2 ^ (nat (bitlen m) - 53);
            q = m div u;
            r = m mod u;
            q' = (if 2 * r < u then q
                  else if u < 2 * r then q + 1
                  else if even q then q else q + 1);
            y = q' * u
        in if 2 ^ 1024 \<le> y then (if 0 < x then PosInf else NegInf)
           else Fin (sgn x * y))"

text \<open>
  An integer is (the value of) a double when rounding leaves it as it is. Only such
  integers occur as the value of a Number.
\<close>

definition is_double :: "int \<Rightarrow> bool" where
  "is_double n = (round_to_double n = Fin n)"

text \<open>\<open>Number::add\<close>, \<open>Number::unaryMinus\<close> and \<open>Number::subtract\<close> of ECMAScript.\<close>

fun number_add :: "number \<Rightarrow> number \<Rightarrow> number" where
  "number_add NaN y = NaN"
| "number_add x NaN = NaN"
| "number_add PosInf NegInf = NaN"
| "number_add NegInf PosInf = NaN"
| "number_add PosInf y = PosInf"
| "number_add NegInf y = NegInf"
| "number_add x PosInf = PosInf"
| "number_add x NegInf = NegInf"
| "number_add (Fin a) (Fin b) = round_to_double (a + b)"

fun number_neg :: "number \<Rightarrow> number" where
  "number_neg NaN = NaN"
| "number_neg PosInf = NegInf"
| "number_neg NegInf = PosInf"
| "number_neg (Fin a) = Fin (- a)"

definition number_subtract :: "number \<Rightarrow> number \<Rightarrow> number" where
  "number_subtract x y = number_add x (number_neg y)"

text \<open>\<open>ToNumber\<close> on the values of the model.\<close>

fun ToNumber :: "jsval \<Rightarrow> number" where
  "ToNumber Undefined = NaN"
| "ToNumber Null = Fin 0"
| "ToNumber (Bool b) = Fin (if b then 1 else 0)"
| "ToNumber (Num x) = x"

text \<open>
  The operators \<^verbatim>\<open>+\<close> and \<^verbatim>\<open>-\<close>. With no string among the operands, \<^verbatim>\<open>+\<close> converts
  both sides with \<open>ToNumber\<close> and adds.
\<close>

definition js_plus :: "jsval \<Rightarrow> jsval \<Rightarrow> jsval" where
  "js_plus a b = Num (number_add (ToNumber a) (ToNumber b))"

definition js_minus :: "jsval \<Rightarrow> jsval \<Rightarrow> jsval" where
  "js_minus a b = Num (number_subtract (ToNumber a) (ToNumber b))"

text \<open>The integer \<open>n\<close> as a JavaScript value, and \<^verbatim>\<open>Number.isInteger\<close>.\<close>

definition js_int :: "int \<Rightarrow> jsval" where
  "js_int n = Num (Fin n)"

fun isInteger :: "jsval \<Rightarrow> bool" where
  "isInteger (Num (Fin n)) = True"
| "isInteger v = False"

section \<open>The counter slice (\<^verbatim>\<open>src/Redux/CounterSlice.js\<close>)\<close>

text \<open>
  The slice's state is an object with the single field \<^verbatim>\<open>value\<close> (written \<open>value'\<close>
  here). An action is an object with a \<^verbatim>\<open>type\<close> and a \<^verbatim>\<open>payload\<close>; an action made
  without an argument carries the payload \<^verbatim>\<open>undefined\<close>. An action object may carry
  further fields (the library allows \<^verbatim>\<open>meta\<close> and \<^verbatim>\<open>error\<close>), so the reducers take any
  extension \<open>'a action_scheme\<close> of the record; the action creators below make plain
  actions.
\<close>

record counter_state =
  value' :: jsval

record action =
  type :: string
  payload :: jsval

definition name :: string where
  "name = ''Counter''"

definition initialState :: counter_state where
  "initialState = \<lparr>value' = js_int 0\<rparr>"

text \<open>
  The three case reducers. Each is written as an assignment to the draft state; the
  model returns the state after the assignment.
  \<^verbatim>\<open>
    increment: (state) => { state.value += 1; },
    decrement: (state) => { state.value -= 1; },
    incrementbyfive: (state, actions) => { state.value += actions.payload; },
  \<close>
\<close>

definition reducers_increment :: "counter_state \<Rightarrow> 'a action_scheme \<Rightarrow> counter_state" where
  "reducers_increment state a = state\<lparr>value' := js_plus (value' state) (js_int 1)\<rparr>"

definition reducers_decrement :: "counter_state \<Rightarrow> 'a action_scheme \<Rightarrow> counter_state" where
  "reducers_decrement state a = state\<lparr>value' := js_minus (value' state) (js_int 1)\<rparr>"

definition reducers_incrementbyfive ::
  "counter_state \<Rightarrow> 'a action_scheme \<Rightarrow> counter_state" where
  "reducers_incrementbyfive state actions =
     state\<lparr>value' := js_plus (value' state) (payload actions)\<rparr>"

text \<open>
  \<^verbatim>\<open>createSlice\<close> belongs to the Redux Toolkit library. As the repository's README
  describes it, the slice's name is the prefix of the action types and the keys of
  \<^verbatim>\<open>reducers\<close> are the action names: the action creator \<^verbatim>\<open>increment\<close> makes an action of
  type \<^verbatim>\<open>"Counter/increment"\<close>, and the slice's reducer runs the case reducer whose
  type the action carries and returns the state as it is for any other action.
\<close>

definition increment :: "jsval \<Rightarrow> action" where
  "increment p = \<lparr>type = name @ ''/increment'', payload = p\<rparr>"

definition decrement :: "jsval \<Rightarrow> action" where
  "decrement p = \<lparr>type = name @ ''/decrement'', payload = p\<rparr>"

definition incrementbyfive :: "jsval \<Rightarrow> action" where
  "incrementbyfive p = \<lparr>type = name @ ''/incrementbyfive'', payload = p\<rparr>"

definition reducer :: "counter_state \<Rightarrow> 'a action_scheme \<Rightarrow> counter_state" where
  "reducer state a =
     (if type a = name @ ''/increment'' then reducers_increment state a
      else if type a = name @ ''/decrement'' then reducers_decrement state a
      else if type a = name @ ''/incrementbyfive'' then reducers_incrementbyfive state a
      else state)"

text \<open>Dispatching the increment action \<open>n\<close> times in a row.\<close>

fun increment_times :: "nat \<Rightarrow> counter_state \<Rightarrow> counter_state" where
  "increment_times 0 state = state"
| "increment_times (Suc n) state = increment_times n (reducer state (increment Undefined))"

section \<open>The state container behind \<^verbatim>\<open>src/Redux/Store.js\<close>\<close>

text \<open>
  \<^verbatim>\<open>Store.js\<close> builds the store with
  \<^verbatim>\<open>configureStore({ reducer: { Counter: CounterSlicereducer } })\<close>.
  \<^verbatim>\<open>configureStore\<close> and the store's \<^verbatim>\<open>dispatch\<close>, \<^verbatim>\<open>getState\<close> and \<^verbatim>\<open>subscribe\<close>
  belong to the Redux Toolkit library and are not among the sources. The container below
  follows section 4.1 of the specification; only the namespace, the initial state and
  the three transitions it is instantiated with come from the source.
\<close>

type_synonym ref = nat

text \<open>
  Modelled from the spec: what a transition function (absent: the library wraps the case
  reducers) hands back to \<^verbatim>\<open>dispatch\<close>, which asks whether "the resulting namespace-local
  state differs by reference from the prior value": the object it was given (\<open>Same\<close>) or
  a new object (\<open>New\<close>).
\<close>

datatype 's outcome = Same | New 's

type_synonym 's transition = "'s \<Rightarrow> action \<Rightarrow> 's outcome"

text \<open>
  Modelled from the spec: the \<^verbatim>\<open>StateContainer\<close> (absent: the store object made by
  \<^verbatim>\<open>configureStore\<close>). The State maps a namespace key to its slice, held with the
  reference that identifies the object; the transition tables are fixed at construction;
  the subscribers are kept in registration order, each under the handle its registration
  returned. A subscriber is an opaque callback of type \<open>'c\<close>: what a callback does when it
  runs is outside the model.
\<close>

record ('s, 'c) container =
  State :: "string \<rightharpoonup> ref \<times> 's"
  transitions :: "string \<rightharpoonup> (string \<rightharpoonup> 's transition)"
  subscribers :: "(nat \<times> 'c) list"
  next_ref :: ref
  next_handle :: nat

text \<open>
  Modelled from the spec: construction (absent: \<^verbatim>\<open>configureStore\<close>) "takes a mapping from
  namespace key to an initial namespace-local state value and a mapping from namespace
  key to a table of transition functions" and produces a container "whose initial State
  is the namespace map of initial values". The initial slices get the references
  \<open>0, 1, ...\<close> in the order they are listed.
\<close>

definition construct ::
  "(string \<times> 's) list \<Rightarrow> (string \<rightharpoonup> (string \<rightharpoonup> 's transition)) \<Rightarrow> ('s, 'c) container" where
  "construct initial table =
     \<lparr>State = map_of (zip (map fst initial) (zip [0..<length initial] (map snd initial))),
      transitions = table,
      subscribers = [],
      next_ref = length initial,
      next_handle = 0\<rparr>"

text \<open>
  Modelled from the spec: \<^verbatim>\<open>getState()\<close> (absent: the store's method) "returns the
  current State snapshot. No side effects."
\<close>

definition getState :: "('s, 'c) container \<Rightarrow> (string \<rightharpoonup> ref \<times> 's)" where
  "getState c = State c"

text \<open>
  Modelled from the spec: the two parts of a kind \<^verbatim>\<open>"<namespace>/<operation>"\<close> (absent:
  the library compares whole type strings), "the prefix of kind before the separator"
  and "the suffix after the separator", taken at the first \<^verbatim>\<open>/\<close>. A kind with no
  separator has no parts.
\<close>

definition split_kind :: "string \<Rightarrow> (string \<times> string) option" where
  "split_kind k =
     (if CHR ''/'' \<in> set k
      then Some (takeWhile (\<lambda>c. c \<noteq> CHR ''/'') k, tl (dropWhile (\<lambda>c. c \<noteq> CHR ''/'') k))
      else None)"

text \<open>
  Modelled from the spec: resolution of an action (absent: part of the store's
  \<^verbatim>\<open>dispatch\<close>): the kind resolves when its namespace has a slice in the State and a
  table, and the table has a transition for the operation. The result is the namespace,
  its current slice with its reference, and the transition.
\<close>

definition resolve ::
  "('s, 'c) container \<Rightarrow> action \<Rightarrow> (string \<times> ref \<times> 's \<times> 's transition) option" where
  "resolve c a =
     (case split_kind (type a) of
        None \<Rightarrow> None
      | Some (ns, operation) \<Rightarrow>
          (case State c ns of
             None \<Rightarrow> None
           | Some (r, s) \<Rightarrow>
               (case transitions c ns of
                  None \<Rightarrow> None
                | Some tbl \<Rightarrow>
                    (case tbl operation of
                       None \<Rightarrow> None
                     | Some f \<Rightarrow> Some (ns, r, s, f)))))"

text \<open>
  Modelled from the spec: \<^verbatim>\<open>dispatch(action)\<close> (absent: the store's method). An
  unresolved action is a no-op: "State is unchanged, no subscribers are notified, and no
  error is raised". A resolved transition is invoked with the current slice and the
  action; "if the resulting namespace-local state differs by reference from the prior
  value, the container replaces the top-level State snapshot and invokes every currently
  registered subscriber, in registration order, synchronously, before dispatch returns".
  The result is the container after the dispatch with the subscribers invoked during
  the call, in the order of their invocation. The specification names no error of
  \<^verbatim>\<open>dispatch\<close>, so the result has no error alternative.
\<close>

definition dispatch ::
  "('s, 'c) container \<Rightarrow> action \<Rightarrow> ('s, 'c) container \<times> (nat \<times> 'c) list" where
  "dispatch c a =
     (case resolve c a of
        None \<Rightarrow> (c, [])
      | Some (ns, r, s, f) \<Rightarrow>
          (case f s a of
             Same \<Rightarrow> (c, [])
           | New s' \<Rightarrow>
               (c\<lparr>State := (State c)(ns \<mapsto> (next_ref c, s')),
                  next_ref := Suc (next_ref c)\<rparr>,
                subscribers c)))"

text \<open>
  Modelled from the spec: \<^verbatim>\<open>subscribe(callback)\<close> (absent: the store's method)
  "registers callback; returns an unregistration handle/function". The result is the
  container and the handle.
\<close>

definition subscribe :: "('s, 'c) container \<Rightarrow> 'c \<Rightarrow> ('s, 'c) container \<times> nat" where
  "subscribe c cb =
     (c\<lparr>subscribers := subscribers c @ [(next_handle c, cb)],
        next_handle := Suc (next_handle c)\<rparr>,
      next_handle c)"

text \<open>
  Modelled from the spec: the unregistration function of a handle (absent: the function
  the store's \<^verbatim>\<open>subscribe\<close> returns). "Calling the unregistration function removes
  callback; if called more than once, subsequent calls are no-ops."
\<close>

definition unsubscribe :: "('s, 'c) container \<Rightarrow> nat \<Rightarrow> ('s, 'c) container" where
  "unsubscribe c h = c\<lparr>subscribers := filter (\<lambda>(h', cb). h' \<noteq> h) (subscribers c)\<rparr>"

text \<open>
  Modelled from the spec: every reference held in the State was handed out before
  (absent: object identity of the JavaScript heap), so that \<open>next_ref\<close> names a new object.
\<close>

definition fresh_refs :: "('s, 'c) container \<Rightarrow> bool" where
  "fresh_refs c = (\<forall>k r s. State c k = Some (r, s) \<longrightarrow> r < next_ref c)"

text \<open>
  The store of \<^verbatim>\<open>Store.js\<close>: the one namespace \<^verbatim>\<open>Counter\<close>, its initial state and the
  table of the slice's three case reducers. As the specification has it, a transition
  returns a new value.
\<close>

definition CounterSlice_transitions :: "string \<rightharpoonup> counter_state transition" where
  "CounterSlice_transitions =
     map_of
       [(''increment'', \<lambda>state a. New (reducers_increment state a)),
        (''decrement'', \<lambda>state a. New (reducers_decrement state a)),
        (''incrementbyfive'', \<lambda>state a. New (reducers_incrementbyfive state a))]"

definition Store :: "(counter_state, 'c) container" where
  "Store = construct [(''Counter'', initialState)] (map_of [(''Counter'', CounterSlice_transitions)])"

section \<open>Facts about the arithmetic\<close>

lemma round_to_double_exact: "\<bar>x\<bar> \<le> 2 ^ 53 \<Longrightarrow> round_to_double x = Fin x"
  by (simp add: round_to_double_def)

lemma js_plus_int: "\<bar>a + b\<bar> \<le> 2 ^ 53 \<Longrightarrow> js_plus (js_int a) (js_int b) = js_int (a + b)"
  by (simp add: js_plus_def js_int_def round_to_double_exact)

lemma js_minus_int: "\<bar>a - b\<bar> \<le> 2 ^ 53 \<Longrightarrow> js_minus (js_int a) (js_int b) = js_int (a - b)"
  by (simp add: js_minus_def js_int_def number_subtract_def round_to_double_exact)

text \<open>
  Below the overflow threshold a rounded sum is finite: the unit \<open>u\<close> of the rounding is
  at most the magnitude \<open>m\<close>, so rounding up gives at most \<open>m + u \<le> 2 * m\<close>.
\<close>

lemma unit_le_magnitude:
  assumes "0 < (m::int)"
  shows "(2::int) ^ (nat (bitlen m) - 53) \<le> m"
proof -
  from assms have low: "2 ^ nat (bitlen m - 1) \<le> m"
    using bitlen_bounds [of m] by simp
  have "nat (bitlen m) - 53 \<le> nat (bitlen m - 1)" by simp
  then have "(2::int) ^ (nat (bitlen m) - 53) \<le> 2 ^ nat (bitlen m - 1)"
    by (rule power_increasing) simp
  with low show ?thesis by linarith
qed

lemma floor_multiple_le: "0 < (u::int) \<Longrightarrow> m div u * u \<le> m"
  by (metis add.commute div_mult_mod_eq le_add_same_cancel2 pos_mod_sign)

lemma rounded_le_twice:
  assumes "0 < (u::int)" and "u \<le> m" and "q' \<le> m div u + 1"
  shows "q' * u \<le> 2 * m"
proof -
  have "q' * u \<le> (m div u + 1) * u"
    using assms(1,3) by (simp add: mult_right_mono)
  also have "\<dots> = m div u * u + u" by (simp add: algebra_simps)
  also have "\<dots> \<le> m + u"
    using floor_multiple_le [OF assms(1), of m] by simp
  also have "\<dots> \<le> 2 * m" using assms(2) by simp
  finally show ?thesis .
qed

lemma round_to_double_finite:
  assumes "\<bar>x\<bar> < 2 ^ 1023"
  shows "\<exists>n. round_to_double x = Fin n"
proof (cases "\<bar>x\<bar> \<le> 2 ^ 53")
  case True
  then show ?thesis by (simp add: round_to_double_def)
next
  case False
  define m where "m = \<bar>x\<bar>"
  define u :: int where "u = 2 ^ (nat (bitlen m) - 53)"
  define q' where "q' = (if 2 * (m mod u) < u then m div u
                  else if u < 2 * (m mod u) then m div u + 1
                  else if even (m div u) then m div u else m div u + 1)"
  from False have mpos: "0 < m" by (simp add: m_def)
  have upos: "0 < u" by (simp add: u_def)
  have ule: "u \<le> m" unfolding u_def using mpos by (rule unit_le_magnitude)
  have "q' \<le> m div u + 1" by (simp add: q'_def)
  with upos ule have "q' * u \<le> 2 * m" by (rule rounded_le_twice)
  moreover from assms have "2 * m < 2 ^ 1024" by (simp add: m_def)
  ultimately have small: "\<not> 2 ^ 1024 \<le> q' * u" by linarith
  have "round_to_double x = Fin (sgn x * (q' * u))"
    using False small
    unfolding round_to_double_def Let_def m_def [symmetric] u_def [symmetric] q'_def [symmetric]
    by simp
  then show ?thesis by blast
qed

text \<open>
  The binade below the overflow: a magnitude from \<open>2 ^ 1023\<close> up to \<open>2 ^ 1024\<close> has 1024
  binary digits, so the unit of its rounding is \<open>2 ^ 971\<close>.
\<close>

lemma bitlen_top:
  assumes "2 ^ 1023 \<le> m" and "m < 2 ^ 1024"
  shows "bitlen m = 1024"
proof -
  have "bitlen m \<le> 1024"
    using assms(2) by (simp add: bitlen_le_iff_power)
  moreover have "1024 \<le> bitlen m"
    using assms(1) by (simp add: bitlen_ge_iff_power)
  ultimately show ?thesis by simp
qed

lemma round_to_double_top:
  assumes "2 ^ 1023 \<le> \<bar>x\<bar>" and "\<bar>x\<bar> < 2 ^ 1024"
  shows "round_to_double x =
     (let m = \<bar>x\<bar>; q = m div 2 ^ 971; r = m mod 2 ^ 971;
          q' = (if 2 * r < 2 ^ 971 then q
                else if 2 ^ 971 < 2 * r then q + 1
                else if even q then q else q + 1)
      in if 2 ^ 1024 \<le> q' * 2 ^ 971 then (if 0 < x then PosInf else NegInf)
         else Fin (sgn x * (q' * 2 ^ 971)))"
proof -
  have unit: "nat (bitlen \<bar>x\<bar>) - 53 = 971"
    using bitlen_top [OF assms] by simp
  have big: "\<not> \<bar>x\<bar> \<le> 2 ^ 53" using assms(1) by simp
  show ?thesis
    unfolding round_to_double_def Let_def unit using big by simp
qed

lemma top_binade_parts:
  fixes m :: int
  defines "q \<equiv> m div 2 ^ 971" and "r \<equiv> m mod 2 ^ 971"
  shows "m = q * 2 ^ 971 + r" and "0 \<le> r" and "r < 2 ^ 971"
  by (simp_all add: q_def r_def)

text \<open>
  The overflow threshold is \<open>2 ^ 1024 - 2 ^ 970\<close>, half a unit above the largest double
  \<open>2 ^ 1024 - 2 ^ 971\<close>: an exact result of smaller magnitude rounds to a finite double,
  any other to an infinity.
\<close>

lemma round_to_double_below_threshold:
  assumes "\<bar>x\<bar> < 2 ^ 1024 - 2 ^ 970"
  shows "\<exists>n. round_to_double x = Fin n"
proof (cases "\<bar>x\<bar> < 2 ^ 1023")
  case True
  then show ?thesis by (rule round_to_double_finite)
next
  case False
  define m where "m = \<bar>x\<bar>"
  define q where "q = m div 2 ^ 971"
  define r where "r = m mod 2 ^ 971"
  define q' where "q' = (if 2 * r < 2 ^ 971 then q
                else if 2 ^ 971 < 2 * r then q + 1
                else if even q then q else q + 1)"
  from False assms have lo: "2 ^ 1023 \<le> \<bar>x\<bar>" and hi: "\<bar>x\<bar> < 2 ^ 1024" by simp_all
  have parts: "m = q * 2 ^ 971 + r" "0 \<le> r" "r < 2 ^ 971"
    unfolding q_def r_def by (rule top_binade_parts)+
  from assms have below: "m < 2 ^ 1024 - 2 ^ 970" by (simp add: m_def)
  have "q' * 2 ^ 971 < 2 ^ 1024"
  proof (cases "2 * r < 2 ^ 971")
    case True
    then have "q' = q" by (simp add: q'_def)
    with parts below show ?thesis by simp
  next
    case False
    then have "q' \<le> q + 1" by (simp add: q'_def)
    then have "q' * 2 ^ 971 \<le> (q + 1) * 2 ^ 971" by simp
    moreover from False parts below have "(q + 1) * 2 ^ 971 < 2 ^ 1024" by simp
    ultimately show ?thesis by linarith
  qed
  then have "round_to_double x = Fin (sgn x * (q' * 2 ^ 971))"
    unfolding round_to_double_top [OF lo hi] Let_def m_def [symmetric] q_def [symmetric]
      r_def [symmetric] q'_def [symmetric]
    by simp
  then show ?thesis by blast
qed

lemma round_to_double_overflow_top:
  assumes "2 ^ 1024 - 2 ^ 970 \<le> \<bar>x\<bar>" and "\<bar>x\<bar> < 2 ^ 1024"
  shows "round_to_double x = (if 0 < x then PosInf else NegInf)"
proof -
  define m where "m = \<bar>x\<bar>"
  define q where "q = m div 2 ^ 971"
  define r where "r = m mod 2 ^ 971"
  define q' where "q' = (if 2 * r < 2 ^ 971 then q
                else if 2 ^ 971 < 2 * r then q + 1
                else if even q then q else q + 1)"
  from assms have lo: "2 ^ 1023 \<le> \<bar>x\<bar>" by simp
  have parts: "m = q * 2 ^ 971 + r" "0 \<le> r" "r < 2 ^ 971"
    unfolding q_def r_def by (rule top_binade_parts)+
  from assms have range: "2 ^ 1024 - 2 ^ 970 \<le> m" "m < 2 ^ 1024" by (simp_all add: m_def)
  have "q * 2 ^ 971 < 2 ^ 53 * 2 ^ 971" using parts range by simp
  then have "q < 2 ^ 53" by (simp only: mult_less_cancel_right) simp
  moreover have "(2 ^ 53 - 2) * 2 ^ 971 < q * 2 ^ 971" using parts range by simp
  then have "2 ^ 53 - 2 < q" by (simp only: mult_less_cancel_right) simp
  ultimately have q: "q = 2 ^ 53 - 1" by simp
  with parts range have half: "2 ^ 971 \<le> 2 * r" by simp
  have "odd q" unfolding q by simp
  with half have "q' = q + 1" by (simp add: q'_def)
  with q have "2 ^ 1024 \<le> q' * 2 ^ 971" by simp
  then show ?thesis
    unfolding round_to_double_top [OF lo assms(2)] Let_def m_def [symmetric] q_def [symmetric]
      r_def [symmetric] q'_def [symmetric]
    by simp
qed

lemma round_to_double_overflow_beyond:
  assumes "2 ^ 1024 \<le> \<bar>x\<bar>"
  shows "round_to_double x = (if 0 < x then PosInf else NegInf)"
proof -
  define m where "m = \<bar>x\<bar>"
  define e where "e = nat (bitlen m) - 53"
  define u :: int where "u = 2 ^ e"
  define q where "q = m div u"
  define q' where "q' = (if 2 * (m mod u) < u then q
                  else if u < 2 * (m mod u) then q + 1
                  else if even q then q else q + 1)"
  from assms have m: "2 ^ 1024 \<le> m" by (simp add: m_def)
  then have mpos: "0 < m" by simp
  from m have len: "1025 \<le> bitlen m" by (simp add: bitlen_ge_iff_power)
  then have e: "nat (bitlen m - 1) = 52 + e" and e_ge: "972 \<le> e"
    by (simp_all add: e_def)
  have upos: "0 < u" by (simp add: u_def)
  have "(2::int) ^ 52 * u = 2 ^ nat (bitlen m - 1)"
    by (simp add: e u_def power_add)
  also have "\<dots> \<le> m" using bitlen_bounds [OF mpos] by simp
  finally have lead: "2 ^ 52 * u \<le> m" .
  then have "(2 ^ 52 * u) div u \<le> m div u" by (rule zdiv_mono1) (rule upos)
  with upos have "2 ^ 52 \<le> q" by (simp add: q_def)
  moreover have "q \<le> q'" by (simp add: q'_def)
  ultimately have q': "2 ^ 52 \<le> q'" by simp
  have u: "(2::int) ^ 972 \<le> u" unfolding u_def using e_ge by (rule power_increasing) simp
  have "(2::int) ^ 52 * 2 ^ 972 \<le> q' * u"
    using q' u by (rule mult_mono) (use q' in simp_all)
  then have "2 ^ 1024 \<le> q' * u" by simp
  moreover from m have "\<not> m \<le> 2 ^ 53" by simp
  ultimately show ?thesis
    unfolding round_to_double_def Let_def m_def [symmetric] e_def [symmetric] u_def [symmetric]
      q_def [symmetric] q'_def [symmetric]
    by simp
qed

lemma round_to_double_infinite:
  assumes "2 ^ 1024 - 2 ^ 970 \<le> \<bar>x\<bar>"
  shows "round_to_double x = (if 0 < x then PosInf else NegInf)"
proof (cases "\<bar>x\<bar> < 2 ^ 1024")
  case True
  with assms show ?thesis by (rule round_to_double_overflow_top)
next
  case False
  then have "2 ^ 1024 \<le> \<bar>x\<bar>" by simp
  then show ?thesis by (rule round_to_double_overflow_beyond)
qed

text \<open>
  An integer that is a double has a magnitude of at most \<open>2 ^ 1024 - 2 ^ 971\<close>, so one
  more or one less stays below the threshold.
\<close>

lemma is_double_below_threshold:
  assumes "is_double v"
  shows "\<bar>v\<bar> < 2 ^ 1024 - 2 ^ 970"
proof (rule ccontr)
  assume "\<not> \<bar>v\<bar> < 2 ^ 1024 - 2 ^ 970"
  then have "2 ^ 1024 - 2 ^ 970 \<le> \<bar>v\<bar>" by simp
  then have "round_to_double v = (if 0 < v then PosInf else NegInf)"
    by (rule round_to_double_infinite)
  with assms show False by (simp add: is_double_def split: if_splits)
qed

lemma is_double_max:
  assumes "is_double v"
  shows "\<bar>v\<bar> \<le> 2 ^ 1024 - 2 ^ 971"
proof (cases "\<bar>v\<bar> < 2 ^ 1023")
  case True
  then show ?thesis by simp
next
  case False
  then have lo: "2 ^ 1023 \<le> \<bar>v\<bar>" by simp
  from assms have "\<bar>v\<bar> < 2 ^ 1024 - 2 ^ 970" by (rule is_double_below_threshold)
  then have hi: "\<bar>v\<bar> < 2 ^ 1024" by simp
  define m where "m = \<bar>v\<bar>"
  define q where "q = m div 2 ^ 971"
  define r where "r = m mod 2 ^ 971"
  define q' where "q' = (if 2 * r < 2 ^ 971 then q
                else if 2 ^ 971 < 2 * r then q + 1
                else if even q then q else q + 1)"
  define k where "k = sgn v * q'"
  from assms have "sgn v * (q' * 2 ^ 971) = v"
    unfolding is_double_def round_to_double_top [OF lo hi] Let_def m_def [symmetric]
      q_def [symmetric] r_def [symmetric] q'_def [symmetric]
    by (simp split: if_splits)
  then have v: "v = k * 2 ^ 971" by (simp add: k_def mult.assoc)
  have multiple: "\<bar>k\<bar> * 2 ^ 971 = \<bar>v\<bar>" unfolding v by (simp add: abs_mult)
  with hi have "\<bar>k\<bar> * 2 ^ 971 < 2 ^ 53 * 2 ^ 971" by simp
  then have "\<bar>k\<bar> < 2 ^ 53" by (simp only: mult_less_cancel_right) simp
  then have "\<bar>k\<bar> * 2 ^ 971 \<le> (2 ^ 53 - 1) * 2 ^ 971" by simp
  with multiple show ?thesis by simp
qed

lemma isInteger_increment:
  assumes "is_double v"
  shows "isInteger (js_plus (js_int v) (js_int 1))"
proof -
  from assms have "\<bar>v\<bar> \<le> 2 ^ 1024 - 2 ^ 971" by (rule is_double_max)
  then have "\<bar>v + 1\<bar> < 2 ^ 1024 - 2 ^ 970" by simp
  then have "\<exists>n. round_to_double (v + 1) = Fin n" by (rule round_to_double_below_threshold)
  then show ?thesis by (auto simp: js_plus_def js_int_def)
qed

lemma isInteger_decrement:
  assumes "is_double v"
  shows "isInteger (js_minus (js_int v) (js_int 1))"
proof -
  from assms have "\<bar>v\<bar> \<le> 2 ^ 1024 - 2 ^ 971" by (rule is_double_max)
  then have "\<bar>v - 1\<bar> < 2 ^ 1024 - 2 ^ 970" by simp
  then have "\<exists>n. round_to_double (v - 1) = Fin n" by (rule round_to_double_below_threshold)
  then show ?thesis by (auto simp: js_minus_def number_subtract_def js_int_def)
qed

lemma isInteger_plus:
  "\<bar>a + b\<bar> < 2 ^ 1024 - 2 ^ 970 \<Longrightarrow> isInteger (js_plus (js_int a) (js_int b))"
  using round_to_double_below_threshold [of "a + b"] by (auto simp: js_plus_def js_int_def)

lemma js_plus_overflow:
  "2 ^ 1024 - 2 ^ 970 \<le> a + b \<Longrightarrow> js_plus (js_int a) (js_int b) = Num PosInf"
  using round_to_double_infinite [of "a + b"] by (simp add: js_plus_def js_int_def)

lemma js_plus_underflow:
  "a + b \<le> - (2 ^ 1024 - 2 ^ 970) \<Longrightarrow> js_plus (js_int a) (js_int b) = Num NegInf"
  using round_to_double_infinite [of "a + b"] by (simp add: js_plus_def js_int_def)

text \<open>
  At the top of the range: \<open>2 ^ 1023\<close> is a double, and twice \<open>2 ^ 1023\<close> overflows.
\<close>

lemma bitlen_1: "bitlen 1 = 1"
  by (simp add: bitlen_alt_def)

lemma bitlen_2_1023: "bitlen (2 ^ 1023) = 1024"
  using bitlen_pow2 [of 1 1023] bitlen_1 by simp

lemma bitlen_2_1024: "bitlen (2 ^ 1024) = 1025"
  using bitlen_pow2 [of 1 1024] bitlen_1 by simp

lemma round_to_double_2_1023: "round_to_double (2 ^ 1023) = Fin (2 ^ 1023)"
  using bitlen_2_1023 by (simp add: round_to_double_def Let_def)

lemma round_to_double_overflow: "round_to_double (2 ^ 1023 + 2 ^ 1023) = PosInf"
  using bitlen_2_1024 by (simp add: round_to_double_def Let_def)

section \<open>Facts about the container\<close>

lemma resolve_subscribe: "resolve (fst (subscribe c cb)) a = resolve c a"
  by (simp add: resolve_def subscribe_def split: option.split prod.split)

lemma resolve_unsubscribe: "resolve (unsubscribe c h) a = resolve c a"
  by (simp add: resolve_def unsubscribe_def split: option.split prod.split)

text \<open>The references of the State stay below \<open>next_ref\<close>.\<close>

lemma fresh_refs_construct: "fresh_refs (construct initial table)"
proof -
  have "r < length initial"
    if "map_of (zip (map fst initial) (zip [0..<length initial] (map snd initial))) k = Some (r, s)"
    for k r s
  proof -
    from that have "(r, s) \<in> set (zip [0..<length initial] (map snd initial))"
      by (auto dest!: map_of_SomeD set_zip_rightD)
    then have "r \<in> set [0..<length initial]"
      by (rule set_zip_leftD)
    then show ?thesis by simp
  qed
  then show ?thesis
    by (simp add: fresh_refs_def construct_def)
qed

lemma fresh_refs_dispatch: "fresh_refs c \<Longrightarrow> fresh_refs (fst (dispatch c a))"
  by (auto simp: fresh_refs_def dispatch_def less_Suc_eq split: option.splits outcome.splits)

lemma fresh_refs_subscribe: "fresh_refs c \<Longrightarrow> fresh_refs (fst (subscribe c cb))"
  by (simp add: fresh_refs_def subscribe_def)

lemma fresh_refs_unsubscribe: "fresh_refs c \<Longrightarrow> fresh_refs (unsubscribe c h)"
  by (simp add: fresh_refs_def unsubscribe_def)

text \<open>A kind that splits is its two parts joined by the separator.\<close>

lemma split_kind_join:
  assumes "split_kind k = Some (ns, operation)"
  shows "k = ns @ CHR ''/'' # operation"
proof -
  let ?P = "\<lambda>c. c \<noteq> CHR ''/''"
  from assms have mem: "CHR ''/'' \<in> set k"
    and ns: "ns = takeWhile ?P k" and op: "operation = tl (dropWhile ?P k)"
    by (auto simp: split_kind_def split: if_splits)
  from mem have "dropWhile ?P k \<noteq> []" by auto
  moreover from this have "hd (dropWhile ?P k) = CHR ''/''"
    using hd_dropWhile [of ?P k] by simp
  ultimately have "dropWhile ?P k = CHR ''/'' # operation"
    unfolding op by (cases "dropWhile ?P k") simp_all
  with takeWhile_dropWhile_id [of ?P k] show ?thesis
    unfolding ns by simp
qed

text \<open>
  On the store of \<^verbatim>\<open>Store.js\<close> the container and the slice's reducer agree: exactly the
  three action types of the slice resolve, and after a dispatch from the initial store
  the \<^verbatim>\<open>Counter\<close> slice holds what the reducer returns.
\<close>

lemma Store_resolve_registered:
  assumes "resolve (Store :: (counter_state, 'c) container) a = Some (ns, r, s, f)"
  shows "type a \<in> {''Counter/increment'', ''Counter/decrement'', ''Counter/incrementbyfive''}"
proof -
  from assms obtain operation where sk: "split_kind (type a) = Some (ns, operation)"
    by (auto simp: resolve_def split: option.splits prod.splits)
  from assms sk have "ns = ''Counter''"
    by (auto simp: resolve_def Store_def construct_def split: option.splits prod.splits if_splits)
  moreover from assms sk have "operation \<in> {''increment'', ''decrement'', ''incrementbyfive''}"
    by (auto simp: resolve_def Store_def construct_def CounterSlice_transitions_def
        split: option.splits prod.splits if_splits)
  ultimately show ?thesis
    using split_kind_join [OF sk] by auto
qed

lemma Store_dispatch_agrees_with_reducer:
  "State (fst (dispatch (Store :: (counter_state, 'c) container) a)) ''Counter''
     = Some (if resolve (Store :: (counter_state, 'c) container) a = None then 0 else 1,
             reducer initialState a)"
proof (cases "resolve (Store :: (counter_state, 'c) container) a")
  case None
  then have "type a \<notin> {''Counter/increment'', ''Counter/decrement'', ''Counter/incrementbyfive''}"
    by (auto simp: resolve_def split_kind_def Store_def construct_def
        CounterSlice_transitions_def)
  with None show ?thesis
    by (simp add: dispatch_def reducer_def name_def) (simp add: Store_def construct_def)
next
  case (Some x)
  obtain ns r s f where x: "x = (ns, r, s, f)" by (cases x)
  from Store_resolve_registered [of a ns r s f] Some x
  have "type a \<in> {''Counter/increment'', ''Counter/decrement'', ''Counter/incrementbyfive''}"
    by simp
  then show ?thesis
    by (auto simp: dispatch_def resolve_def split_kind_def Store_def construct_def
        CounterSlice_transitions_def reducer_def name_def)
qed

text \<open>Repeated increments stay exact while the counter stays within \<open>\<plusminus> 2 ^ 53\<close>.\<close>

lemma increment_times_exact:
  "- (2 ^ 53) \<le> v \<Longrightarrow> v + int n \<le> 2 ^ 53 \<Longrightarrow>
     increment_times n \<lparr>value' = js_int v\<rparr> = \<lparr>value' = js_int (v + int n)\<rparr>"
proof (induction n arbitrary: v)
  case 0
  then show ?case by simp
next
  case (Suc n)
  from Suc.prems have step: "\<bar>v + 1\<bar> \<le> 2 ^ 53" by simp
  have "reducer \<lparr>value' = js_int v\<rparr> (increment Undefined) = \<lparr>value' = js_int (v + 1)\<rparr>"
    by (simp add: reducer_def increment_def reducers_increment_def js_plus_int [OF step])
  moreover have "increment_times n \<lparr>value' = js_int (v + 1)\<rparr> = \<lparr>value' = js_int (v + 1 + int n)\<rparr>"
    using Suc.prems by (intro Suc.IH) simp_all
  ultimately show ?case by (simp add: algebra_simps)
qed

section \<open>The claims\<close>

subsection \<open>C1: increment and decrement\<close>

text \<open>
  C1, as the code has it. For every integer \<open>v\<close> with \<open>\<bar>v\<bar> < 2 ^ 53\<close>, the increment
  action on the state \<^verbatim>\<open>{ value: v }\<close> returns \<^verbatim>\<open>{ value: v + 1 }\<close> and the decrement
  action returns \<^verbatim>\<open>{ value: v - 1 }\<close>, whatever payload \<open>p\<close> the action carries; and from the
  initial state, whose value is 0, the increment action yields the value 1. The bound is
  needed: the counter is a JavaScript Number, and beyond \<open>2 ^ 53\<close> the sum is rounded.
\<close>

theorem increment_decrement_on_safe_integers:
  assumes "\<bar>v\<bar> < 2 ^ 53"
  shows "reducer \<lparr>value' = js_int v\<rparr> (increment p) = \<lparr>value' = js_int (v + 1)\<rparr>
       \<and> reducer \<lparr>value' = js_int v\<rparr> (decrement p) = \<lparr>value' = js_int (v - 1)\<rparr>
       \<and> reducer initialState (increment Undefined) = \<lparr>value' = js_int 1\<rparr>"
proof -
  from assms have up: "\<bar>v + 1\<bar> \<le> 2 ^ 53" and down: "\<bar>v - 1\<bar> \<le> 2 ^ 53"
    by linarith+
  have "reducer \<lparr>value' = js_int v\<rparr> (increment p) = \<lparr>value' = js_int (v + 1)\<rparr>"
    by (simp add: reducer_def increment_def reducers_increment_def js_plus_int [OF up])
  moreover have "reducer \<lparr>value' = js_int v\<rparr> (decrement p) = \<lparr>value' = js_int (v - 1)\<rparr>"
    by (simp add: reducer_def decrement_def name_def reducers_decrement_def
        js_minus_int [OF down])
  moreover have "reducer initialState (increment Undefined) = \<lparr>value' = js_int 1\<rparr>"
    by (simp add: reducer_def increment_def reducers_increment_def initialState_def
        js_plus_def js_int_def round_to_double_exact)
  ultimately show ?thesis by blast
qed

theorem increment_decrement_on_safe_integers_witness:
  "\<bar>41\<bar> < (2::int) ^ 53
   \<and> reducer \<lparr>value' = js_int 41\<rparr> (increment (js_int 7)) = \<lparr>value' = js_int 42\<rparr>
   \<and> reducer \<lparr>value' = js_int 41\<rparr> (decrement (js_int 7)) = \<lparr>value' = js_int 40\<rparr>"
  using increment_decrement_on_safe_integers [of 41 "js_int 7"] by simp

text \<open>
  C1 as stated fails at \<open>v = 2 ^ 53 = 9007199254740992\<close>: the increment action leaves the
  value at \<open>2 ^ 53\<close>, since \<open>2 ^ 53 + 1\<close> is not a double and the tie goes to the even
  neighbour.
\<close>

theorem increment_beyond_safe_integers_counterexample:
  "reducer \<lparr>value' = js_int 9007199254740992\<rparr> (increment Undefined)
     = \<lparr>value' = js_int 9007199254740992\<rparr>
   \<and> reducer \<lparr>value' = js_int 9007199254740992\<rparr> (increment Undefined)
     \<noteq> \<lparr>value' = js_int (9007199254740992 + 1)\<rparr>"
  by (simp add: reducer_def increment_def reducers_increment_def js_plus_def js_int_def
      round_to_double_def Let_def compute_bitlen)

subsection \<open>C2: increment by an amount\<close>

text \<open>
  C2, as the code has it. For all integers \<open>v\<close> and \<open>n\<close>, negative \<open>n\<close> included, with
  \<open>\<bar>v + n\<bar> \<le> 2 ^ 53\<close>, the increment-by-amount action (\<^verbatim>\<open>incrementbyfive\<close>) with payload
  \<open>n\<close> on the state \<^verbatim>\<open>{ value: v }\<close> yields \<^verbatim>\<open>{ value: v + n }\<close>.
\<close>

theorem incrementbyfive_adds_payload:
  assumes "\<bar>v + n\<bar> \<le> 2 ^ 53"
  shows "reducer \<lparr>value' = js_int v\<rparr> (incrementbyfive (js_int n))
         = \<lparr>value' = js_int (v + n)\<rparr>"
  by (simp add: reducer_def incrementbyfive_def name_def reducers_incrementbyfive_def
      js_plus_int [OF assms])

theorem incrementbyfive_adds_payload_witness:
  "\<bar>0 + 5\<bar> \<le> (2::int) ^ 53 \<and> \<bar>3 + (- 10)\<bar> \<le> (2::int) ^ 53
   \<and> reducer \<lparr>value' = js_int 0\<rparr> (incrementbyfive (js_int 5)) = \<lparr>value' = js_int 5\<rparr>
   \<and> reducer \<lparr>value' = js_int 3\<rparr> (incrementbyfive (js_int (- 10)))
       = \<lparr>value' = js_int (- 7)\<rparr>"
  using incrementbyfive_adds_payload [of 0 5] incrementbyfive_adds_payload [of 3 "- 10"]
  by simp

text \<open>C2 as stated fails at \<open>v = 2 ^ 53\<close>, \<open>n = 1\<close>: the sum is rounded back to \<open>2 ^ 53\<close>.\<close>

theorem incrementbyfive_rounds_counterexample:
  "reducer \<lparr>value' = js_int 9007199254740992\<rparr> (incrementbyfive (js_int 1))
     = \<lparr>value' = js_int 9007199254740992\<rparr>
   \<and> reducer \<lparr>value' = js_int 9007199254740992\<rparr> (incrementbyfive (js_int 1))
     \<noteq> \<lparr>value' = js_int (9007199254740992 + 1)\<rparr>"
  by (simp add: reducer_def incrementbyfive_def name_def reducers_incrementbyfive_def
      js_plus_def js_int_def round_to_double_def Let_def compute_bitlen)

subsection \<open>C3: an unresolved action\<close>

text \<open>
  C3. For every container \<open>c\<close> and every action whose kind does not resolve to a
  registered namespace and operation, \<open>dispatch\<close> is a silent no-op: the container, and so
  the State that \<open>getState\<close> returns, is as before, no subscriber is invoked, and a second
  dispatch of the same action gives the same again. The dispatch raises no error: its
  result is always a container and a list of subscribers.
\<close>

theorem unresolved_dispatch_is_noop:
  assumes "resolve c a = None"
  shows "dispatch c a = (c, [])
       \<and> getState (fst (dispatch c a)) = getState c
       \<and> dispatch (fst (dispatch c a)) a = (c, [])"
  using assms by (simp add: dispatch_def)

text \<open>
  On the store of \<^verbatim>\<open>Store.js\<close> with a subscriber \<^verbatim>\<open>S\<close>, the kind
  \<^verbatim>\<open>"Counter/doesNotExist"\<close> resolves to nothing; neither does \<^verbatim>\<open>"counter/doesNotExist"\<close>,
  whose namespace is not the store's \<^verbatim>\<open>Counter\<close>.
\<close>

theorem unresolved_dispatch_is_noop_witness:
  "resolve (Store :: (counter_state, string) container)
      \<lparr>type = ''counter/doesNotExist'', payload = Undefined\<rparr> = None
   \<and> resolve (fst (subscribe Store ''S''))
      \<lparr>type = ''Counter/doesNotExist'', payload = Undefined\<rparr> = None
   \<and> dispatch (fst (subscribe Store ''S''))
        \<lparr>type = ''Counter/doesNotExist'', payload = Undefined\<rparr>
       = (fst (subscribe Store ''S''), [])"
  using unresolved_dispatch_is_noop
      [of "fst (subscribe Store ''S'')"
          "\<lparr>type = ''Counter/doesNotExist'', payload = Undefined\<rparr>"]
  by (simp add: resolve_def split_kind_def Store_def construct_def subscribe_def
      CounterSlice_transitions_def)

subsection \<open>C4: a missing payload\<close>

text \<open>
  C4, as the code has it. For every integer \<open>v\<close>, the increment-by-amount action with a
  missing payload (\<^verbatim>\<open>undefined\<close>) or the payload NaN on the state \<^verbatim>\<open>{ value: v }\<close> yields
  \<^verbatim>\<open>{ value: NaN }\<close>: the reducer adds the payload as it is. Of the payloads that are
  not numbers, \<^verbatim>\<open>null\<close> and \<^verbatim>\<open>false\<close> convert to 0 and leave a value \<open>v\<close> with
  \<open>\<bar>v\<bar> \<le> 2 ^ 53\<close> as it is.
\<close>

theorem incrementbyfive_non_integer_payload:
  "reducer \<lparr>value' = js_int v\<rparr> (incrementbyfive Undefined) = \<lparr>value' = Num NaN\<rparr>
   \<and> reducer \<lparr>value' = js_int v\<rparr> (incrementbyfive (Num NaN)) = \<lparr>value' = Num NaN\<rparr>
   \<and> (\<bar>v\<bar> \<le> 2 ^ 53 \<longrightarrow>
        reducer \<lparr>value' = js_int v\<rparr> (incrementbyfive Null) = \<lparr>value' = js_int v\<rparr>
      \<and> reducer \<lparr>value' = js_int v\<rparr> (incrementbyfive (Bool False)) = \<lparr>value' = js_int v\<rparr>)"
  by (simp add: reducer_def incrementbyfive_def name_def reducers_incrementbyfive_def
      js_plus_def js_int_def round_to_double_exact)

theorem incrementbyfive_non_integer_payload_witness:
  "\<bar>5\<bar> \<le> (2::int) ^ 53
   \<and> reducer \<lparr>value' = js_int 5\<rparr> (incrementbyfive Undefined) = \<lparr>value' = Num NaN\<rparr>
   \<and> reducer \<lparr>value' = js_int 5\<rparr> (incrementbyfive Null) = \<lparr>value' = js_int 5\<rparr>
   \<and> reducer \<lparr>value' = js_int 5\<rparr> (incrementbyfive (Bool False)) = \<lparr>value' = js_int 5\<rparr>"
  using incrementbyfive_non_integer_payload [of 5] by simp

text \<open>
  C4 as stated fails at \<open>v = 0\<close> with the payload missing: the state becomes
  \<^verbatim>\<open>{ value: NaN }\<close>, not \<^verbatim>\<open>{ value: 0 }\<close>.
\<close>

theorem incrementbyfive_missing_payload_counterexample:
  "reducer \<lparr>value' = js_int 0\<rparr> (incrementbyfive Undefined) = \<lparr>value' = Num NaN\<rparr>
   \<and> reducer \<lparr>value' = js_int 0\<rparr> (incrementbyfive Undefined) \<noteq> \<lparr>value' = js_int 0\<rparr>"
  by (simp add: reducer_def incrementbyfive_def name_def reducers_incrementbyfive_def
      js_plus_def js_int_def)

subsection \<open>C5: increment, then decrement\<close>

text \<open>
  C5, as the code has it. For every integer \<open>v\<close> with \<open>- 2 ^ 53 \<le> v < 2 ^ 53\<close>, the
  increment action followed by the decrement action on the state \<^verbatim>\<open>{ value: v }\<close> returns
  the value to \<open>v\<close>.
\<close>

theorem increment_then_decrement_roundtrip:
  assumes "- (2 ^ 53) \<le> v" and "v < 2 ^ 53"
  shows "reducer (reducer \<lparr>value' = js_int v\<rparr> (increment p)) (decrement q)
         = \<lparr>value' = js_int v\<rparr>"
proof -
  from assms have up: "\<bar>v + 1\<bar> \<le> 2 ^ 53" by linarith
  have "reducer \<lparr>value' = js_int v\<rparr> (increment p) = \<lparr>value' = js_int (v + 1)\<rparr>"
    by (simp add: reducer_def increment_def reducers_increment_def js_plus_int [OF up])
  moreover have "js_minus (js_int (v + 1)) (js_int 1) = js_int v"
    using assms js_minus_int [of "v + 1" 1] by simp
  then have "reducer \<lparr>value' = js_int (v + 1)\<rparr> (decrement q) = \<lparr>value' = js_int v\<rparr>"
    by (simp add: reducer_def decrement_def name_def reducers_decrement_def)
  ultimately show ?thesis by simp
qed

theorem increment_then_decrement_roundtrip_witness:
  "- (2 ^ 53) \<le> (- 3 :: int) \<and> (- 3 :: int) < 2 ^ 53
   \<and> reducer (reducer \<lparr>value' = js_int (- 3)\<rparr> (increment Undefined)) (decrement Undefined)
       = \<lparr>value' = js_int (- 3)\<rparr>"
  using increment_then_decrement_roundtrip [of "- 3" Undefined Undefined] by simp

text \<open>
  C5 as stated fails at \<open>v = 2 ^ 53\<close>: the increment leaves \<open>2 ^ 53\<close>, and the decrement
  then gives \<open>2 ^ 53 - 1\<close>.
\<close>

theorem roundtrip_beyond_safe_integers_counterexample:
  "reducer (reducer \<lparr>value' = js_int 9007199254740992\<rparr> (increment Undefined))
       (decrement Undefined)
     = \<lparr>value' = js_int 9007199254740991\<rparr>
   \<and> reducer (reducer \<lparr>value' = js_int 9007199254740992\<rparr> (increment Undefined))
       (decrement Undefined)
     \<noteq> \<lparr>value' = js_int 9007199254740992\<rparr>"
  by (simp add: reducer_def increment_def decrement_def name_def reducers_increment_def
      reducers_decrement_def js_plus_def js_minus_def number_subtract_def js_int_def
      round_to_double_def Let_def compute_bitlen)

subsection \<open>C6: the other namespaces\<close>

text \<open>
  C6. For every resolved dispatch, only the slice of the namespace \<open>ns\<close> named in the
  action's kind is replaced. Every other namespace \<open>k\<close> keeps its slice with the
  reference it had, so the slice is the identical object and not only an equal one. When
  the transition returns a new value \<open>s'\<close>, the slice of \<open>ns\<close> becomes \<open>s'\<close> under the
  reference \<open>next_ref c\<close>, which differs from the reference \<open>r\<close> of the slice it replaces
  when the references of the container are fresh.
\<close>

theorem dispatch_replaces_only_named_slice:
  assumes "resolve c a = Some (ns, r, s, f)"
  shows "(\<forall>k. k \<noteq> ns \<longrightarrow> State (fst (dispatch c a)) k = State c k)
       \<and> (\<forall>s'. f s a = New s' \<longrightarrow> State (fst (dispatch c a)) ns = Some (next_ref c, s'))
       \<and> (fresh_refs c \<longrightarrow> r \<noteq> next_ref c)"
proof -
  from assms have "State c ns = Some (r, s)"
    by (auto simp: resolve_def split: option.splits prod.splits)
  then have "fresh_refs c \<longrightarrow> r \<noteq> next_ref c"
    by (auto simp: fresh_refs_def)
  with assms show ?thesis
    by (auto simp: dispatch_def split: outcome.splits)
qed

text \<open>
  A container with the two namespaces \<^verbatim>\<open>Counter\<close> and \<^verbatim>\<open>Other\<close>: the increment action of
  \<^verbatim>\<open>Counter\<close> leaves the slice of \<^verbatim>\<open>Other\<close> under its reference 1 and puts the new slice
  of \<^verbatim>\<open>Counter\<close> under the reference 2.
\<close>

theorem dispatch_replaces_only_named_slice_witness:
  "State (fst (dispatch
      (construct [(''Counter'', initialState), (''Other'', \<lparr>value' = js_int 7\<rparr>)]
         (map_of [(''Counter'', CounterSlice_transitions), (''Other'', CounterSlice_transitions)])
       :: (counter_state, string) container)
      (increment Undefined))) ''Other'' = Some (1, \<lparr>value' = js_int 7\<rparr>)
   \<and> State (fst (dispatch
      (construct [(''Counter'', initialState), (''Other'', \<lparr>value' = js_int 7\<rparr>)]
         (map_of [(''Counter'', CounterSlice_transitions), (''Other'', CounterSlice_transitions)])
       :: (counter_state, string) container)
      (increment Undefined))) ''Counter'' = Some (2, \<lparr>value' = js_int 1\<rparr>)"
  using dispatch_replaces_only_named_slice
      [of "construct [(''Counter'', initialState), (''Other'', \<lparr>value' = js_int 7\<rparr>)]
             (map_of [(''Counter'', CounterSlice_transitions), (''Other'', CounterSlice_transitions)])
           :: (counter_state, string) container"
          "increment Undefined" "''Counter''" 0 initialState
          "\<lambda>state a. New (reducers_increment state a)"]
  by (simp add: resolve_def split_kind_def construct_def CounterSlice_transitions_def
      increment_def name_def reducers_increment_def initialState_def js_plus_def js_int_def
      round_to_double_exact)

subsection \<open>C7: the subscribers\<close>

text \<open>
  C7. For every successful dispatch (the action resolves and its transition returns a
  new value), the subscribers invoked during the call, in the order of their invocation,
  are the registered subscribers in the order of their registration: a subscriber
  registered last is invoked last. A subscriber whose unregistration function (that of
  its handle \<open>h\<close>) was called before the dispatch is not among the subscribers the
  dispatch invokes, and the others are invoked as before. The invocations are part of
  what \<open>dispatch\<close> returns, so they are over when it returns.
\<close>

theorem subscribers_notified_in_registration_order:
  assumes "resolve c a = Some (ns, r, s, f)" and "f s a = New s'"
  shows "snd (dispatch c a) = subscribers c
       \<and> snd (dispatch (fst (subscribe c cb)) a) = subscribers c @ [(next_handle c, cb)]
       \<and> snd (dispatch (unsubscribe c h) a) = filter (\<lambda>(h', cb'). h' \<noteq> h) (subscribers c)
       \<and> h \<notin> fst ` set (snd (dispatch (unsubscribe c h) a))"
proof -
  have "snd (dispatch c a) = subscribers c"
    using assms by (simp add: dispatch_def)
  moreover have "snd (dispatch (fst (subscribe c cb)) a) = subscribers c @ [(next_handle c, cb)]"
    using assms by (simp add: dispatch_def resolve_subscribe) (simp add: subscribe_def)
  moreover have removed:
    "snd (dispatch (unsubscribe c h) a) = filter (\<lambda>(h', cb'). h' \<noteq> h) (subscribers c)"
    using assms by (simp add: dispatch_def resolve_unsubscribe) (simp add: unsubscribe_def)
  moreover have "h \<notin> fst ` set (snd (dispatch (unsubscribe c h) a))"
    unfolding removed by auto
  ultimately show ?thesis by blast
qed

text \<open>
  On the store of \<^verbatim>\<open>Store.js\<close> with the subscribers \<^verbatim>\<open>S1\<close> and \<^verbatim>\<open>S2\<close> registered in this
  order, the increment action invokes \<^verbatim>\<open>S1\<close>, then \<^verbatim>\<open>S2\<close>; once \<^verbatim>\<open>S1\<close> is unregistered,
  it invokes \<^verbatim>\<open>S2\<close> alone.
\<close>

theorem subscribers_notified_in_registration_order_witness:
  "snd (dispatch (fst (subscribe (fst (subscribe Store ''S1'')) ''S2'')) (increment Undefined))
     = [(0, ''S1''), (1, ''S2'')]
   \<and> snd (dispatch (unsubscribe (fst (subscribe (fst (subscribe Store ''S1'')) ''S2'')) 0)
          (increment Undefined))
     = [(1, ''S2'')]"
  using subscribers_notified_in_registration_order
      [of "fst (subscribe (fst (subscribe Store ''S1'')) ''S2'')" "increment Undefined"
          "''Counter''" 0 initialState "\<lambda>state a. New (reducers_increment state a)"
          "reducers_increment initialState (increment Undefined)" "''S3''" 0]
  by (simp add: resolve_def split_kind_def Store_def construct_def subscribe_def
      CounterSlice_transitions_def increment_def name_def)

subsection \<open>C8: the shape of the state\<close>

text \<open>
  C8, as the code has it. The reducer returns a \<open>counter_state\<close>, a state with the
  single field \<^verbatim>\<open>value\<close>. For every state \<^verbatim>\<open>{ value: v }\<close> with \<open>v\<close> an integer (one that
  is a double, as the value of a Number is), the increment and the decrement action,
  whatever payload they carry, leave an integer in the field. The increment-by-amount
  action with an integer payload \<open>n\<close> leaves an integer when
  \<open>\<bar>v + n\<bar> < 2 ^ 1024 - 2 ^ 970\<close>; from there on the sum overflows and the field holds
  \<^verbatim>\<open>Infinity\<close> (for a positive sum) or \<^verbatim>\<open>-Infinity\<close> (for a negative sum).
\<close>

theorem reducer_preserves_integer_shape:
  "(is_double v \<longrightarrow>
      isInteger (value' (reducer \<lparr>value' = js_int v\<rparr> (increment p)))
    \<and> isInteger (value' (reducer \<lparr>value' = js_int v\<rparr> (decrement p))))
   \<and> (\<bar>v + n\<bar> < 2 ^ 1024 - 2 ^ 970 \<longrightarrow>
      isInteger (value' (reducer \<lparr>value' = js_int v\<rparr> (incrementbyfive (js_int n)))))
   \<and> (2 ^ 1024 - 2 ^ 970 \<le> v + n \<longrightarrow>
      value' (reducer \<lparr>value' = js_int v\<rparr> (incrementbyfive (js_int n))) = Num PosInf)
   \<and> (v + n \<le> - (2 ^ 1024 - 2 ^ 970) \<longrightarrow>
      value' (reducer \<lparr>value' = js_int v\<rparr> (incrementbyfive (js_int n))) = Num NegInf)"
proof -
  have sum: "value' (reducer \<lparr>value' = js_int v\<rparr> (incrementbyfive (js_int n)))
      = js_plus (js_int v) (js_int n)"
    by (simp add: reducer_def incrementbyfive_def name_def reducers_incrementbyfive_def)
  have "isInteger (value' (reducer \<lparr>value' = js_int v\<rparr> (increment p)))" if "is_double v"
    using that
    by (simp add: reducer_def increment_def reducers_increment_def isInteger_increment)
  moreover have "isInteger (value' (reducer \<lparr>value' = js_int v\<rparr> (decrement p)))"
    if "is_double v"
    using that
    by (simp add: reducer_def decrement_def name_def reducers_decrement_def
        isInteger_decrement)
  moreover have "isInteger (value' (reducer \<lparr>value' = js_int v\<rparr> (incrementbyfive (js_int n))))"
    if "\<bar>v + n\<bar> < 2 ^ 1024 - 2 ^ 970"
    unfolding sum using that by (rule isInteger_plus)
  moreover have "value' (reducer \<lparr>value' = js_int v\<rparr> (incrementbyfive (js_int n))) = Num PosInf"
    if "2 ^ 1024 - 2 ^ 970 \<le> v + n"
    unfolding sum using that by (rule js_plus_overflow)
  moreover have "value' (reducer \<lparr>value' = js_int v\<rparr> (incrementbyfive (js_int n))) = Num NegInf"
    if "v + n \<le> - (2 ^ 1024 - 2 ^ 970)"
    unfolding sum using that by (rule js_plus_underflow)
  ultimately show ?thesis by blast
qed

text \<open>
  At \<open>v = 2 ^ 53\<close> the three actions leave an integer; at \<open>v = n = 2 ^ 1023\<close> the sum
  overflows to \<^verbatim>\<open>Infinity\<close>, and at \<open>v = n = - 2 ^ 1023\<close> to \<^verbatim>\<open>-Infinity\<close>.
\<close>

theorem reducer_preserves_integer_shape_witness:
  "is_double 9007199254740992
   \<and> \<bar>9007199254740992 + 3\<bar> < (2::int) ^ 1024 - 2 ^ 970
   \<and> (2::int) ^ 1024 - 2 ^ 970 \<le> 2 ^ 1023 + 2 ^ 1023
   \<and> - (2 ^ 1023) + - (2 ^ 1023) \<le> - ((2::int) ^ 1024 - 2 ^ 970)
   \<and> isInteger (value' (reducer \<lparr>value' = js_int 9007199254740992\<rparr> (increment Undefined)))
   \<and> isInteger (value' (reducer \<lparr>value' = js_int 9007199254740992\<rparr> (decrement Undefined)))
   \<and> isInteger (value' (reducer \<lparr>value' = js_int 9007199254740992\<rparr>
        (incrementbyfive (js_int 3))))
   \<and> value' (reducer \<lparr>value' = js_int (2 ^ 1023)\<rparr> (incrementbyfive (js_int (2 ^ 1023))))
       = Num PosInf
   \<and> value' (reducer \<lparr>value' = js_int (- (2 ^ 1023))\<rparr>
        (incrementbyfive (js_int (- (2 ^ 1023)))))
       = Num NegInf"
  using reducer_preserves_integer_shape [of 9007199254740992 Undefined 3]
    reducer_preserves_integer_shape [of "2 ^ 1023" Undefined "2 ^ 1023"]
    reducer_preserves_integer_shape [of "- (2 ^ 1023)" Undefined "- (2 ^ 1023)"]
  by (simp add: is_double_def round_to_double_exact)

text \<open>
  C8 as stated fails at \<open>v = n = 2 ^ 1023\<close>, an integer that is a double: the sum
  overflows, and the state becomes \<^verbatim>\<open>{ value: Infinity }\<close>.
\<close>

theorem integer_shape_overflow_counterexample:
  "isInteger (js_int (2 ^ 1023)) \<and> is_double (2 ^ 1023)
   \<and> value' (reducer \<lparr>value' = js_int (2 ^ 1023)\<rparr> (incrementbyfive (js_int (2 ^ 1023))))
       = Num PosInf
   \<and> \<not> isInteger
         (value' (reducer \<lparr>value' = js_int (2 ^ 1023)\<rparr> (incrementbyfive (js_int (2 ^ 1023)))))"
  using round_to_double_2_1023 round_to_double_overflow
  by (simp add: reducer_def incrementbyfive_def name_def reducers_incrementbyfive_def
      js_plus_def js_int_def is_double_def)

subsection \<open>C9: determinism\<close>



subsection \<open>C10: repeated increments\<close>

text \<open>
  C10, as the code has it. For every integer \<open>v\<close> and natural number \<open>n\<close> with
  \<open>- 2 ^ 53 \<le> v\<close>, \<open>v + n \<le> 2 ^ 53\<close> and \<open>n \<le> 2 ^ 53\<close>, the increment action
  dispatched \<open>n\<close> times from the state \<^verbatim>\<open>{ value: v }\<close> produces the same state as the
  increment-by-amount action dispatched once with payload \<open>n\<close>.
\<close>

theorem increment_times_equals_incrementbyfive:
  assumes "- (2 ^ 53) \<le> v" and "v + int n \<le> 2 ^ 53" and "int n \<le> 2 ^ 53"
  shows "increment_times n \<lparr>value' = js_int v\<rparr>
         = reducer \<lparr>value' = js_int v\<rparr> (incrementbyfive (js_int (int n)))"
proof -
  from assms have "\<bar>v + int n\<bar> \<le> 2 ^ 53" by simp
  then have "reducer \<lparr>value' = js_int v\<rparr> (incrementbyfive (js_int (int n)))
             = \<lparr>value' = js_int (v + int n)\<rparr>"
    by (simp add: reducer_def incrementbyfive_def name_def reducers_incrementbyfive_def
        js_plus_int)
  with increment_times_exact [OF assms(1,2)] show ?thesis by simp
qed

theorem increment_times_equals_incrementbyfive_witness:
  "- (2 ^ 53) \<le> (- 2 :: int) \<and> - 2 + int 5 \<le> 2 ^ 53 \<and> int 5 \<le> 2 ^ 53
   \<and> increment_times 5 \<lparr>value' = js_int (- 2)\<rparr>
       = reducer \<lparr>value' = js_int (- 2)\<rparr> (incrementbyfive (js_int (int 5)))
   \<and> reducer \<lparr>value' = js_int (- 2)\<rparr> (incrementbyfive (js_int (int 5)))
       = \<lparr>value' = js_int 3\<rparr>"
  using increment_times_equals_incrementbyfive [of "- 2" 5]
  by (simp add: reducer_def incrementbyfive_def name_def reducers_incrementbyfive_def
      js_plus_def js_int_def round_to_double_exact)

text \<open>
  C10 as stated fails at \<open>v = 2 ^ 53\<close>, \<open>n = 2\<close>: each of the two increments is rounded
  back to \<open>2 ^ 53\<close>, while the one addition of 2 gives \<open>2 ^ 53 + 2\<close>, which is a double.
\<close>

theorem increment_times_rounds_counterexample:
  "increment_times 2 \<lparr>value' = js_int 9007199254740992\<rparr>
     = \<lparr>value' = js_int 9007199254740992\<rparr>
   \<and> reducer \<lparr>value' = js_int 9007199254740992\<rparr> (incrementbyfive (js_int (int 2)))
       = \<lparr>value' = js_int 9007199254740994\<rparr>
   \<and> increment_times 2 \<lparr>value' = js_int 9007199254740992\<rparr>
       \<noteq> reducer \<lparr>value' = js_int 9007199254740992\<rparr> (incrementbyfive (js_int (int 2)))"
  by (simp add: numeral_2_eq_2 reducer_def increment_def incrementbyfive_def name_def
      reducers_increment_def reducers_incrementbyfive_def js_plus_def js_int_def
      round_to_double_def Let_def compute_bitlen)

end
